theory Spec2Isabelle
  imports Complex_Main "HOL-Library.Word"
begin

section \<open>Certificate bootstrap of the pilot server (pilot/pkg/bootstrap/certcontroller.go)\<close>

text \<open>
  The file has two methods of the server: \<open>initCertController\<close>, which turns the mesh
  configuration's certificate list into three parallel lists and hands them to the
  Chiron webhook controller, and \<open>initDNSCerts\<close>, which asks the Kubernetes CA for a
  certificate for the control plane's own host name and saves it in two files.
  Both are embedded as functions on an explicit world: the file system, the answers of
  the collaborators that live outside the file, and the sequence of calls made so far.
  The receiver, its environment, its Kubernetes client and the arguments are taken to be
  non-nil, as the server's construction establishes them before either method runs.
\<close>

subsection \<open>Functions of the Go standard library\<close>

text \<open>
  \<open>strings.Join(elems, sep)\<close>: the elements with \<open>sep\<close> between each two of them; the
  empty string for no element.
\<close>

fun strings_Join :: "string list \<Rightarrow> string \<Rightarrow> string" where
  "strings_Join [] sep = []"
| "strings_Join [e] sep = e"
| "strings_Join (e # e' # es) sep = e @ sep @ strings_Join (e' # es) sep"

text \<open>
  \<open>strings.Split(s, sep)\<close> for a separator of one byte, the only kind the file uses:
  the substrings between the separators, so one more element than there are separators
  (the empty string gives one empty element).
\<close>

fun split_from :: "char \<Rightarrow> string \<Rightarrow> string \<Rightarrow> string list" where
  "split_from c acc [] = [rev acc]"
| "split_from c acc (x # xs) =
     (if x = c then rev acc # split_from c [] xs else split_from c (x # acc) xs)"

definition strings_Split :: "string \<Rightarrow> char \<Rightarrow> string list" where
  "strings_Split s c = split_from c [] s"

text \<open>
  \<open>path.Clean\<close> and \<open>path.Join\<close>: empty and \<open>.\<close> elements go, an inner \<open>..\<close> goes
  together with the element before it, a \<open>..\<close> at the start of a rooted path goes, and
  the empty result is \<open>.\<close>. \<open>path.Join\<close> drops leading empty elements, joins the rest
  with a slash and cleans the result.
\<close>

fun clean_elems :: "bool \<Rightarrow> string list \<Rightarrow> string list \<Rightarrow> string list" where
  "clean_elems rooted out [] = rev out"
| "clean_elems rooted out (e # es) =
     (if e = [] \<or> e = ''.'' then clean_elems rooted out es
      else if e = ''..'' then
        (case out of
           [] \<Rightarrow> if rooted then clean_elems rooted [] es else clean_elems rooted [''..''] es
         | t # ts \<Rightarrow>
             if t = ''..'' then clean_elems rooted (''..'' # out) es
             else clean_elems rooted ts es)
      else clean_elems rooted (e # out) es)"

definition path_Clean :: "string \<Rightarrow> string" where
  "path_Clean p =
     (case p of
        [] \<Rightarrow> ''.''
      | x # _ \<Rightarrow>
          (let rooted = (x = CHR ''/'');
               body = strings_Join (clean_elems rooted [] (strings_Split p CHR ''/'')) ''/''
           in if rooted then ''/'' @ body else if body = [] then ''.'' else body))"

definition path_Join :: "string list \<Rightarrow> string" where
  "path_Join elem =
     (case dropWhile (\<lambda>e. e = []) elem of
        [] \<Rightarrow> []
      | es \<Rightarrow> path_Clean (strings_Join es ''/''))"

subsection \<open>Constants and package variables\<close>

type_synonym duration = "64 word"  \<comment> \<open>\<open>time.Duration\<close>: nanoseconds in an \<open>int64\<close>\<close>
type_synonym file_mode = "32 word" \<comment> \<open>\<open>os.FileMode\<close>: a \<open>uint32\<close>\<close>
type_synonym bytes = "8 word list"

definition time_Minute :: duration where
  "time_Minute = 60 * 1000000000"

definition defaultCertGracePeriodRatio :: real where
  "defaultCertGracePeriodRatio = 0.5"

definition defaultMinCertGracePeriod :: duration where
  "defaultMinCertGracePeriod = 10 * time_Minute"

definition defaultCACertPath :: string where
  "defaultCACertPath = ''/var/run/secrets/kubernetes.io/serviceaccount/ca.crt''"

definition dnsCertDir :: string where
  "dnsCertDir = ''./var/run/secrets/istio-dns''"

definition dnsKeyFile :: string where
  "dnsKeyFile = path_Join [dnsCertDir, ''key.pem'']"

definition dnsCertFile :: string where
  "dnsCertFile = path_Join [dnsCertDir, ''cert-chain.pem'']"

text \<open>The permission literal \<open>0600\<close> of the source is octal.\<close>

definition perm_0600 :: file_mode where
  "perm_0600 = 6 * 8 ^ 2 + 0 * 8 + 0"

subsection \<open>Data\<close>

text \<open>
  An entry of the mesh configuration's certificate list. The generated getters
  \<open>GetDnsNames\<close> and \<open>GetSecretName\<close> answer the field, and the empty value for a nil
  entry, so a nil entry is the record with both fields empty.
\<close>

record certificate =
  SecretName :: string
  DnsNames :: "string list"

record pilot_args =
  Namespace :: string

text \<open>
  The controller that \<open>chiron.NewWebhookController\<close> returns, by the arguments it was
  built from (the three client handles are left out).
\<close>

datatype webhook_controller =
  WebhookController real duration string "string list" "string list" "string list"

text \<open>
  The hook handed to \<open>addStartFunc\<close>: it starts \<open>s.certController.Run(stop)\<close> in a
  goroutine of its own and returns nil at once.
\<close>

datatype start_func = RunCertControllerInBackground

record server =
  mesh_certificates :: "certificate list" \<comment> \<open>\<open>s.environment.Mesh().GetCertificates()\<close>\<close>
  certController :: "webhook_controller option"
  startFuncs :: "start_func list"

text \<open>
  Errors. The source builds the first with \<open>fmt.Errorf\<close>, passes the errors of the
  signing call and of the file system on as they are, and wraps the constructor's error
  with \<open>fmt.Errorf\<close>; the constructor records where the error arose and carries its text.
\<close>

datatype error =
    InvalidHostnameError string
  | SigningError string
  | PersistenceError string
  | ConstructionError string

datatype log_arg = LStr string | LStrs "string list"

text \<open>Every call that leaves the file, in the order it is made.\<close>

datatype event =
    Stat string
  | GenKeyCertK8sCA string string string string
  | MkdirAll string file_mode
  | WriteFile string bytes file_mode
  | NewWebhookController real duration string "string list" "string list" "string list"
  | AddStartFunc start_func
  | Info string
  | Infoa "log_arg list"

datatype node = Dir file_mode | File bytes file_mode

text \<open>
  A write can fail when the file is opened, leaving everything as it was, or part-way,
  leaving the bytes written so far.
\<close>

datatype write_fault = OpenFails string | WriteFailsAfter nat string

text \<open>
  The world outside the file: the file system as the process sees it, which directory
  creations and file writes the operating system refuses, what the Kubernetes CA
  answers to a signing request (\<open>chiron.GenKeyCertK8sCA\<close>: an error, or the certificate
  chain, the key and the CA certificate), what \<open>chiron.NewWebhookController\<close> answers
  (a controller pointer and an error, as in its Go signature), and the calls so far.
\<close>

record world =
  files :: "string \<rightharpoonup> node"
  mkdir_error :: "string \<Rightarrow> string option"
  write_error :: "string \<Rightarrow> write_fault option"
  csr_backend :: "string \<Rightarrow> string \<Rightarrow> string \<Rightarrow> string \<Rightarrow> string + (bytes \<times> bytes \<times> bytes)"
  controller_backend ::
    "real \<Rightarrow> duration \<Rightarrow> string \<Rightarrow> string list \<Rightarrow> string list \<Rightarrow> string list
       \<Rightarrow> webhook_controller option \<times> string option"
  calls :: "event list"

definition record_call :: "world \<Rightarrow> event \<Rightarrow> world" where
  "record_call w e = w\<lparr>calls := calls w @ [e]\<rparr>"

subsection \<open>Operating system calls\<close>

text \<open>\<open>os.Stat(name)\<close>: the answer is whether the error is nil, that is, the path exists.\<close>

definition os_Stat :: "world \<Rightarrow> string \<Rightarrow> bool \<times> world" where
  "os_Stat w name = (files w name \<noteq> None, record_call w (Stat name))"

text \<open>
  \<open>os.MkdirAll(path, perm)\<close>: nothing to do for a directory that exists, an error for a
  file in its place, else the directory is created with \<open>perm\<close>.
\<close>

definition os_MkdirAll :: "world \<Rightarrow> string \<Rightarrow> file_mode \<Rightarrow> string option \<times> world" where
  "os_MkdirAll w p perm =
     (let w' = record_call w (MkdirAll p perm) in
      case mkdir_error w p of
        Some e \<Rightarrow> (Some e, w')
      | None \<Rightarrow>
          (case files w p of
             Some (Dir m) \<Rightarrow> (None, w')
           | Some (File d m) \<Rightarrow> (Some (''mkdir '' @ p @ '': not a directory''), w')
           | None \<Rightarrow> (None, w'\<lparr>files := (files w)(p \<mapsto> Dir perm)\<rparr>)))"

text \<open>
  \<open>ioutil.WriteFile(filename, data, perm)\<close>: the file is created with \<open>perm\<close> if it does
  not exist and truncated if it does (keeping its mode), then \<open>data\<close> is written.
\<close>

definition ioutil_WriteFile ::
  "world \<Rightarrow> string \<Rightarrow> bytes \<Rightarrow> file_mode \<Rightarrow> string option \<times> world" where
  "ioutil_WriteFile w p data perm =
     (let w' = record_call w (WriteFile p data perm);
          mode = (case files w p of Some (File d m) \<Rightarrow> m | _ \<Rightarrow> perm)
      in case files w p of
           Some (Dir m) \<Rightarrow> (Some (''open '' @ p @ '': is a directory''), w')
         | _ \<Rightarrow>
            (case write_error w p of
               Some (OpenFails e) \<Rightarrow> (Some e, w')
             | Some (WriteFailsAfter n e) \<Rightarrow>
                 (Some e, w'\<lparr>files := (files w)(p \<mapsto> File (take n data) mode)\<rparr>)
             | None \<Rightarrow> (None, w'\<lparr>files := (files w)(p \<mapsto> File data mode)\<rparr>)))"

subsection \<open>Collaborators outside the file\<close>

definition chiron_GenKeyCertK8sCA ::
  "world \<Rightarrow> string \<Rightarrow> string \<Rightarrow> string \<Rightarrow> string \<Rightarrow> (string + (bytes \<times> bytes \<times> bytes)) \<times> world" where
  "chiron_GenKeyCertK8sCA w dnsName secretName secretNamespace caFilePath =
     (csr_backend w dnsName secretName secretNamespace caFilePath,
      record_call w (GenKeyCertK8sCA dnsName secretName secretNamespace caFilePath))"

definition chiron_NewWebhookController ::
  "world \<Rightarrow> real \<Rightarrow> duration \<Rightarrow> string \<Rightarrow> string list \<Rightarrow> string list \<Rightarrow> string list
     \<Rightarrow> (webhook_controller option \<times> string option) \<times> world" where
  "chiron_NewWebhookController w ratio minGrace caPath secretNames dnsNames namespaces =
     (controller_backend w ratio minGrace caPath secretNames dnsNames namespaces,
      record_call w (NewWebhookController ratio minGrace caPath secretNames dnsNames namespaces))"

text \<open>
  Modelled from the spec: \<open>Server.addStartFunc\<close> is declared elsewhere in the package;
  registering a startup hook adds it to the server's start functions, after those
  already there.
\<close>

definition addStartFunc :: "server \<Rightarrow> start_func \<Rightarrow> server" where
  "addStartFunc s fn = s\<lparr>startFuncs := startFuncs s @ [fn]\<rparr>"

definition log_Info :: "world \<Rightarrow> string \<Rightarrow> world" where
  "log_Info w msg = record_call w (Info msg)"

definition log_Infoa :: "world \<Rightarrow> log_arg list \<Rightarrow> world" where
  "log_Infoa w args = record_call w (Infoa args)"

subsection \<open>initCertController\<close>

text \<open>
  The loop of lines 62 to 73 over the certificate list, with the three slices it
  appends to.
\<close>

fun extract_requests ::
  "certificate list \<Rightarrow> string \<Rightarrow> string list \<times> string list \<times> string list
     \<Rightarrow> string list \<times> string list \<times> string list" where
  "extract_requests [] ns acc = acc"
| "extract_requests (c # cs) ns (secretNames, dnsNames, namespaces) =
     (let name = strings_Join (DnsNames c) '','' in
      if length name = 0 then extract_requests cs ns (secretNames, dnsNames, namespaces)
      else if length (SecretName c) > 0 then
        extract_requests cs ns
          (secretNames @ [SecretName c], dnsNames @ [name], namespaces @ [ns])
      else extract_requests cs ns (secretNames, dnsNames, namespaces))"

definition initCertController ::
  "world \<Rightarrow> server \<Rightarrow> pilot_args \<Rightarrow> error option \<times> server \<times> world" where
  "initCertController w s args =
     (if length (mesh_certificates s) = 0 then
        (None, s, log_Info w ''nil certificate config'')
      else
        (case extract_requests (mesh_certificates s) (Namespace args) ([], [], []) of
           (secretNames, dnsNames, namespaces) \<Rightarrow>
             (case chiron_NewWebhookController w defaultCertGracePeriodRatio
                     defaultMinCertGracePeriod defaultCACertPath secretNames dnsNames namespaces of
                ((ctl, err), w') \<Rightarrow>
                  (let s' = s\<lparr>certController := ctl\<rparr> in
                   case err of
                     Some e \<Rightarrow>
                       (Some (ConstructionError (''failed to create certificate controller: '' @ e)),
                        s', w')
                   | None \<Rightarrow>
                       (None, addStartFunc s' RunCertControllerInBackground,
                        record_call w' (AddStartFunc RunCertControllerInBackground))))))"

subsection \<open>initDNSCerts\<close>

text \<open>The names of lines 119 to 130: the host name, and the other service name beside it.\<close>

definition initDNSCerts_names :: "string \<Rightarrow> string list" where
  "initDNSCerts_names hostname =
     (let names = [hostname];
          names = (if hostname = ''istio-pilot.istio-system.svc''
                   then names @ [''istiod.istio-system.svc''] else names);
          names = (if hostname = ''istiod.istio-system.svc''
                   then names @ [''istio-pilot.istio-system.svc''] else names)
      in names)"

definition initDNSCerts :: "world \<Rightarrow> string \<Rightarrow> error option \<times> world" where
  "initDNSCerts w hostname =
     (case os_Stat w dnsKeyFile of
        (True, w0) \<Rightarrow> (None, w0)
      | (False, w0) \<Rightarrow>
          (let parts = strings_Split hostname CHR ''.'' in
           if length parts < 2 then
             (Some (InvalidHostnameError
                (''invalid hostname '' @ hostname @
                 '', should contain at least service name and namespace'')), w0)
           else
             (let names = initDNSCerts_names hostname;
                  w1 = log_Infoa w0 [LStr ''Generating K8S-signed cert for '', LStrs names]
              in case chiron_GenKeyCertK8sCA w1 (strings_Join names '','')
                        (parts ! 0 @ ''.csr.secret'') (parts ! 1) defaultCACertPath of
                   (Inl e, w2) \<Rightarrow> (Some (SigningError e), w2)
                 | (Inr (certChain, keyPEM, caCert), w2) \<Rightarrow>
                     (case os_MkdirAll w2 dnsCertDir perm_0600 of
                        (Some e, w3) \<Rightarrow> (Some (PersistenceError e), w3)
                      | (None, w3) \<Rightarrow>
                          (case ioutil_WriteFile w3 dnsKeyFile keyPEM perm_0600 of
                             (Some e, w4) \<Rightarrow> (Some (PersistenceError e), w4)
                           | (None, w4) \<Rightarrow>
                               (case ioutil_WriteFile w4 dnsCertFile certChain perm_0600 of
                                  (Some e, w5) \<Rightarrow> (Some (PersistenceError e), w5)
                                | (None, w5) \<Rightarrow>
                                    (None,
                                     log_Infoa w5
                                       [LStr ''Certificates created in '', LStr dnsCertDir])))))))"

subsection \<open>Reading the record of calls\<close>

text \<open>The calls made between an earlier world and a later one.\<close>

definition new_calls :: "world \<Rightarrow> world \<Rightarrow> event list" where
  "new_calls w w' = drop (length (calls w)) (calls w')"

fun is_signing_call :: "event \<Rightarrow> bool" where
  "is_signing_call (GenKeyCertK8sCA a b c d) = True"
| "is_signing_call _ = False"

fun is_write_call :: "event \<Rightarrow> bool" where
  "is_write_call (MkdirAll p m) = True"
| "is_write_call (WriteFile p d m) = True"
| "is_write_call _ = False"

fun is_construction_call :: "event \<Rightarrow> bool" where
  "is_construction_call (NewWebhookController r m p a b c) = True"
| "is_construction_call _ = False"

fun is_registration_call :: "event \<Rightarrow> bool" where
  "is_registration_call (AddStartFunc f) = True"
| "is_registration_call _ = False"

text \<open>
  The signing request of lines 135 and 136 for a host name, the answer of the CA to it,
  and the log line of line 132.
\<close>

abbreviation csr_call :: "string \<Rightarrow> event" where
  "csr_call hostname \<equiv>
     GenKeyCertK8sCA (strings_Join (initDNSCerts_names hostname) '','')
       (strings_Split hostname CHR ''.'' ! 0 @ ''.csr.secret'')
       (strings_Split hostname CHR ''.'' ! 1) defaultCACertPath"

abbreviation csr_answer :: "world \<Rightarrow> string \<Rightarrow> string + (bytes \<times> bytes \<times> bytes)" where
  "csr_answer w hostname \<equiv>
     csr_backend w (strings_Join (initDNSCerts_names hostname) '','')
       (strings_Split hostname CHR ''.'' ! 0 @ ''.csr.secret'')
       (strings_Split hostname CHR ''.'' ! 1) defaultCACertPath"

abbreviation names_logged :: "string \<Rightarrow> event" where
  "names_logged hostname \<equiv>
     Infoa [LStr ''Generating K8S-signed cert for '', LStrs (initDNSCerts_names hostname)]"

text \<open>
  The entries of a certificate list that have a DNS name after joining and a secret
  name.
\<close>

abbreviation managed :: "certificate list \<Rightarrow> certificate list" where
  "managed cs \<equiv>
     filter (\<lambda>c. strings_Join (DnsNames c) '','' \<noteq> [] \<and> SecretName c \<noteq> []) cs"

subsection \<open>Worlds and servers for the examples\<close>

text \<open>
  A world with no file, an operating system that refuses nothing, a CA that signs and
  a constructor that accepts what it is given.
\<close>

definition fresh_world :: world where
  "fresh_world =
     \<lparr>files = Map.empty,
      mkdir_error = (\<lambda>p. None),
      write_error = (\<lambda>p. None),
      csr_backend = (\<lambda>dnsName secretName secretNamespace caFilePath. Inr ([67], [75], [65])),
      controller_backend =
        (\<lambda>r m p a b c. (Some (WebhookController r m p a b c), None)),
      calls = []\<rparr>"

text \<open>The same world with a key file mounted by the user.\<close>

definition mounted_world :: world where
  "mounted_world = fresh_world\<lparr>files := [dnsKeyFile \<mapsto> File [1] perm_0600]\<rparr>"

text \<open>The same world, where the certificate chain file cannot be opened for writing.\<close>

definition chain_refused_world :: world where
  "chain_refused_world =
     fresh_world\<lparr>write_error := [dnsCertFile \<mapsto> OpenFails ''permission denied'']\<rparr>"

text \<open>The same world, where the constructor of the controller refuses the CA path.\<close>

definition refusing_world :: world where
  "refusing_world =
     fresh_world\<lparr>controller_backend := (\<lambda>r m p a b c. (None, Some ''bad ca''))\<rparr>"

definition fresh_server :: "certificate list \<Rightarrow> server" where
  "fresh_server cs = \<lparr>mesh_certificates = cs, certController = None, startFuncs = []\<rparr>"

section \<open>Facts about the library functions and the constants\<close>

lemma dnsKeyFile_value: "dnsKeyFile = ''var/run/secrets/istio-dns/key.pem''"
  by (simp add: dnsKeyFile_def dnsCertDir_def path_Join_def path_Clean_def strings_Split_def)

lemma dnsCertFile_value: "dnsCertFile = ''var/run/secrets/istio-dns/cert-chain.pem''"
  by (simp add: dnsCertFile_def dnsCertDir_def path_Join_def path_Clean_def strings_Split_def)

lemma paths_distinct:
  "dnsCertDir \<noteq> dnsKeyFile" "dnsCertDir \<noteq> dnsCertFile" "dnsKeyFile \<noteq> dnsCertFile"
  by (simp_all add: dnsKeyFile_value dnsCertFile_value dnsCertDir_def)

lemma split_from_length: "length (split_from c acc s) = Suc (count_list s c)"
  by (induction s arbitrary: acc) simp_all

lemma strings_Split_length: "length (strings_Split s c) = Suc (count_list s c)"
  by (simp add: strings_Split_def split_from_length)

section \<open>The operating system calls, one outcome at a time\<close>

lemma os_MkdirAll_fst_cong:
  "files w' p = files w p \<Longrightarrow> mkdir_error w' p = mkdir_error w p \<Longrightarrow>
     fst (os_MkdirAll w' p perm) = fst (os_MkdirAll w p perm)"
  by (simp add: os_MkdirAll_def Let_def split: option.splits node.splits)

lemma os_MkdirAll_ok:
  "fst (os_MkdirAll w p perm) = None \<Longrightarrow>
     os_MkdirAll w p perm =
       (None,
        w\<lparr>files := (if files w p = None then (files w)(p \<mapsto> Dir perm) else files w),
          calls := calls w @ [MkdirAll p perm]\<rparr>)"
  by (simp add: os_MkdirAll_def record_call_def Let_def split: option.splits node.splits)

lemma os_MkdirAll_calls:
  "os_MkdirAll w p perm = (r, w') \<Longrightarrow> calls w' = calls w @ [MkdirAll p perm]"
  by (auto simp add: os_MkdirAll_def record_call_def Let_def split: option.splits node.splits)

lemma ioutil_WriteFile_fst_cong:
  "files w' p = files w p \<Longrightarrow> write_error w' p = write_error w p \<Longrightarrow>
     fst (ioutil_WriteFile w' p d perm) = fst (ioutil_WriteFile w p d perm)"
  by (simp add: ioutil_WriteFile_def Let_def
      split: option.splits node.splits write_fault.splits)

lemma ioutil_WriteFile_ok:
  "fst (ioutil_WriteFile w p d perm) = None \<Longrightarrow>
     ioutil_WriteFile w p d perm =
       (None,
        w\<lparr>files := (files w)(p \<mapsto> File d (case files w p of Some (File old m) \<Rightarrow> m | _ \<Rightarrow> perm)),
          calls := calls w @ [WriteFile p d perm]\<rparr>)"
  by (simp add: ioutil_WriteFile_def record_call_def Let_def
      split: option.splits node.splits write_fault.splits)

lemma ioutil_WriteFile_fail:
  "fst (ioutil_WriteFile w p d perm) = Some e \<Longrightarrow>
     \<exists>w'. ioutil_WriteFile w p d perm = (Some e, w') \<and>
          calls w' = calls w @ [WriteFile p d perm] \<and>
          (\<forall>q. q \<noteq> p \<longrightarrow> files w' q = files w q)"
  by (auto simp add: ioutil_WriteFile_def record_call_def Let_def
      split: option.splits node.splits write_fault.splits)

lemma ioutil_WriteFile_calls:
  "ioutil_WriteFile w p d perm = (r, w') \<Longrightarrow> calls w' = calls w @ [WriteFile p d perm]"
  by (auto simp add: ioutil_WriteFile_def record_call_def Let_def
      split: option.splits node.splits write_fault.splits)

section \<open>The branches of initDNSCerts\<close>

lemma initDNSCerts_key_present:
  "files w dnsKeyFile \<noteq> None \<Longrightarrow>
     initDNSCerts w hostname = (None, w\<lparr>calls := calls w @ [Stat dnsKeyFile]\<rparr>)"
  by (simp add: initDNSCerts_def os_Stat_def record_call_def)

lemma initDNSCerts_invalid:
  "files w dnsKeyFile = None \<Longrightarrow> length (strings_Split hostname CHR ''.'') < 2 \<Longrightarrow>
     initDNSCerts w hostname =
       (Some (InvalidHostnameError
          (''invalid hostname '' @ hostname @
           '', should contain at least service name and namespace'')),
        w\<lparr>calls := calls w @ [Stat dnsKeyFile]\<rparr>)"
  by (simp add: initDNSCerts_def os_Stat_def record_call_def)

lemma initDNSCerts_signing_fails:
  assumes "files w dnsKeyFile = None"
    and "2 \<le> length (strings_Split hostname CHR ''.'')"
    and "csr_answer w hostname = Inl e"
  shows "initDNSCerts w hostname =
     (Some (SigningError e),
      w\<lparr>calls := calls w @ [Stat dnsKeyFile, names_logged hostname, csr_call hostname]\<rparr>)"
  using assms
  by (simp add: initDNSCerts_def os_Stat_def chiron_GenKeyCertK8sCA_def log_Infoa_def
      record_call_def Let_def)

lemma initDNSCerts_signed:
  assumes "files w dnsKeyFile = None"
    and "2 \<le> length (strings_Split hostname CHR ''.'')"
    and "csr_answer w hostname = Inr (certChain, keyPEM, caCert)"
    and "w2 = w\<lparr>calls := calls w @ [Stat dnsKeyFile, names_logged hostname, csr_call hostname]\<rparr>"
  shows "initDNSCerts w hostname =
     (case os_MkdirAll w2 dnsCertDir perm_0600 of
        (Some e, w3) \<Rightarrow> (Some (PersistenceError e), w3)
      | (None, w3) \<Rightarrow>
          (case ioutil_WriteFile w3 dnsKeyFile keyPEM perm_0600 of
             (Some e, w4) \<Rightarrow> (Some (PersistenceError e), w4)
           | (None, w4) \<Rightarrow>
               (case ioutil_WriteFile w4 dnsCertFile certChain perm_0600 of
                  (Some e, w5) \<Rightarrow> (Some (PersistenceError e), w5)
                | (None, w5) \<Rightarrow>
                    (None, log_Infoa w5 [LStr ''Certificates created in '', LStr dnsCertDir]))))"
  using assms
  by (simp add: initDNSCerts_def os_Stat_def chiron_GenKeyCertK8sCA_def log_Infoa_def
      record_call_def Let_def)

lemma persist_no_signing:
  assumes "R = (case os_MkdirAll w2 dnsCertDir perm_0600 of
        (Some e, w3) \<Rightarrow> (Some (PersistenceError e), w3)
      | (None, w3) \<Rightarrow>
          (case ioutil_WriteFile w3 dnsKeyFile keyPEM perm_0600 of
             (Some e, w4) \<Rightarrow> (Some (PersistenceError e), w4)
           | (None, w4) \<Rightarrow>
               (case ioutil_WriteFile w4 dnsCertFile certChain perm_0600 of
                  (Some e, w5) \<Rightarrow> (Some (PersistenceError e), w5)
                | (None, w5) \<Rightarrow>
                    (None, log_Infoa w5 [LStr ''Certificates created in '', LStr dnsCertDir]))))"
  shows "\<exists>tail. calls (snd R) = calls w2 @ tail \<and> filter is_signing_call tail = []"
  unfolding assms
  by (auto simp add: log_Infoa_def record_call_def split: prod.splits option.splits
      dest!: os_MkdirAll_calls ioutil_WriteFile_calls)

lemma initDNSCerts_request_first:
  assumes key: "files w dnsKeyFile = None"
    and valid: "2 \<le> length (strings_Split hostname CHR ''.'')"
  shows "\<exists>tail. new_calls w (snd (initDNSCerts w hostname)) =
           [Stat dnsKeyFile, names_logged hostname, csr_call hostname] @ tail \<and>
           filter is_signing_call tail = []"
proof (cases "csr_answer w hostname")
  case (Inl e)
  show ?thesis
    by (simp add: initDNSCerts_signing_fails [OF key valid Inl] new_calls_def)
next
  case (Inr r)
  obtain certChain keyPEM caCert where r: "r = (certChain, keyPEM, caCert)"
    by (cases r) auto
  define w2 where
    "w2 = w\<lparr>calls := calls w @ [Stat dnsKeyFile, names_logged hostname, csr_call hostname]\<rparr>"
  from persist_no_signing [OF initDNSCerts_signed [OF key valid Inr [unfolded r] w2_def]]
  obtain tail where "calls (snd (initDNSCerts w hostname)) = calls w2 @ tail"
    and "filter is_signing_call tail = []" by blast
  then show ?thesis by (simp add: new_calls_def w2_def)
qed

section \<open>The branches of initCertController\<close>

lemma extract_requests_acc:
  "extract_requests cs ns (a, b, c) =
     (a @ map SecretName (managed cs),
      b @ map (\<lambda>c. strings_Join (DnsNames c) '','') (managed cs),
      c @ map (\<lambda>c. ns) (managed cs))"
  by (induction cs arbitrary: a b c) (simp_all add: Let_def)

lemma initCertController_empty:
  "mesh_certificates s = [] \<Longrightarrow>
     initCertController w s args =
       (None, s, w\<lparr>calls := calls w @ [Info ''nil certificate config'']\<rparr>)"
  by (simp add: initCertController_def log_Info_def record_call_def)

lemma initCertController_nonempty:
  assumes "mesh_certificates s \<noteq> []"
    and "extract_requests (mesh_certificates s) (Namespace args) ([], [], []) = (sn, dn, nss)"
    and "controller_backend w defaultCertGracePeriodRatio defaultMinCertGracePeriod
           defaultCACertPath sn dn nss = (ctl, err)"
  shows "initCertController w s args =
     (case err of
        Some e \<Rightarrow>
          (Some (ConstructionError (''failed to create certificate controller: '' @ e)),
           s\<lparr>certController := ctl\<rparr>,
           w\<lparr>calls := calls w @
             [NewWebhookController defaultCertGracePeriodRatio defaultMinCertGracePeriod
                defaultCACertPath sn dn nss]\<rparr>)
      | None \<Rightarrow>
          (None,
           s\<lparr>certController := ctl,
             startFuncs := startFuncs s @ [RunCertControllerInBackground]\<rparr>,
           w\<lparr>calls := calls w @
             [NewWebhookController defaultCertGracePeriodRatio defaultMinCertGracePeriod
                defaultCACertPath sn dn nss,
              AddStartFunc RunCertControllerInBackground]\<rparr>))"
  using assms
  by (simp add: initCertController_def chiron_NewWebhookController_def addStartFunc_def
      record_call_def Let_def split: option.splits)

section \<open>The certificate request lists\<close>

text \<open>
  Claim C5. For every certificate list and every namespace of the caller, the loop
  yields one request per entry whose joined DNS names are not empty and whose secret
  name is not empty, in the order of the list: the secret name, the DNS names joined
  with commas, and the caller's namespace. All other entries are left out. The three
  slices of the source hold the three fields of the requests, position by position.
  The loop is a total function, so it has no way to fail.
\<close>

theorem extract_requests_spec:
  "extract_requests cs ns ([], [], []) =
     (map SecretName (managed cs),
      map (\<lambda>c. strings_Join (DnsNames c) '','') (managed cs),
      map (\<lambda>c. ns) (managed cs)) \<and>
   (case extract_requests cs ns ([], [], []) of
      (secretNames, dnsNames, namespaces) \<Rightarrow> zip secretNames (zip dnsNames namespaces)) =
     map (\<lambda>c. (SecretName c, strings_Join (DnsNames c) '','', ns)) (managed cs)"
  by (simp add: extract_requests_acc zip_map_map zip_same_conv_map)

theorem extract_requests_spec_witness:
  "extract_requests
     [\<lparr>SecretName = ''cert-a'', DnsNames = [''svc.a'']\<rparr>,
      \<lparr>SecretName = ''cert-b'', DnsNames = []\<rparr>,
      \<lparr>SecretName = '''', DnsNames = [''svc.c'']\<rparr>]
     ''ns1'' ([], [], []) = ([''cert-a''], [''svc.a''], [''ns1''])"
  using extract_requests_spec
    [of "[\<lparr>SecretName = ''cert-a'', DnsNames = [''svc.a'']\<rparr>,
          \<lparr>SecretName = ''cert-b'', DnsNames = []\<rparr>,
          \<lparr>SecretName = '''', DnsNames = [''svc.c'']\<rparr>]" "''ns1''"]
  by simp

section \<open>Launching the rotation controller\<close>

text \<open>
  Claim C1, as the source has it. The claim says that no controller is constructed and
  no hook is registered whenever the extracted lists are empty. The source returns
  early only for an empty certificate list (line 56); after the loop it calls the
  constructor without looking at the lists, and its comment on line 76 leaves an empty
  set of services to the controller. So for the list of one entry without a secret
  name the lists are empty, the constructor is called with three empty lists, and the
  hook is registered.
\<close>

theorem initCertController_all_excluded_counterexample:
  "extract_requests [\<lparr>SecretName = '''', DnsNames = [''svc.c'']\<rparr>] ''ns1'' ([], [], []) =
     ([], [], []) \<and>
   filter is_construction_call
     (calls (snd (snd (initCertController fresh_world
        (fresh_server [\<lparr>SecretName = '''', DnsNames = [''svc.c'']\<rparr>])
        \<lparr>Namespace = ''ns1''\<rparr>)))) =
     [NewWebhookController 0.5 600000000000
        ''/var/run/secrets/kubernetes.io/serviceaccount/ca.crt'' [] [] []] \<and>
   startFuncs (fst (snd (initCertController fresh_world
        (fresh_server [\<lparr>SecretName = '''', DnsNames = [''svc.c'']\<rparr>])
        \<lparr>Namespace = ''ns1''\<rparr>))) = [RunCertControllerInBackground]"
  by (simp add: initCertController_def chiron_NewWebhookController_def addStartFunc_def
      record_call_def fresh_world_def fresh_server_def defaultCertGracePeriodRatio_def
      defaultMinCertGracePeriod_def time_Minute_def defaultCACertPath_def)

text \<open>
  Claim C1, amended. For an empty certificate list the method returns nil, leaves the
  server as it was, constructs no controller and registers no hook. For a list that is
  not empty it calls the constructor once, with the extracted lists, whether or not
  they are empty, and keeps the controller the constructor answers. When the
  constructor answers no error, the method returns nil and registers the hook, once,
  after the start functions already there; when the constructor answers an error, the
  method returns that error wrapped and registers nothing.
\<close>

theorem initCertController_launch:
  "(mesh_certificates s = [] \<longrightarrow>
      fst (initCertController w s args) = None \<and>
      fst (snd (initCertController w s args)) = s \<and>
      filter is_construction_call
        (new_calls w (snd (snd (initCertController w s args)))) = [] \<and>
      filter is_registration_call
        (new_calls w (snd (snd (initCertController w s args)))) = []) \<and>
   (mesh_certificates s \<noteq> [] \<longrightarrow>
      filter is_construction_call
        (new_calls w (snd (snd (initCertController w s args)))) =
        (case extract_requests (mesh_certificates s) (Namespace args) ([], [], []) of
           (secretNames, dnsNames, namespaces) \<Rightarrow>
             [NewWebhookController defaultCertGracePeriodRatio defaultMinCertGracePeriod
                defaultCACertPath secretNames dnsNames namespaces]) \<and>
      filter is_registration_call
        (new_calls w (snd (snd (initCertController w s args)))) =
        (case fst (initCertController w s args) of
           None \<Rightarrow> [AddStartFunc RunCertControllerInBackground]
         | Some e \<Rightarrow> []) \<and>
      startFuncs (fst (snd (initCertController w s args))) =
        (case fst (initCertController w s args) of
           None \<Rightarrow> startFuncs s @ [RunCertControllerInBackground]
         | Some e \<Rightarrow> startFuncs s) \<and>
      (case extract_requests (mesh_certificates s) (Namespace args) ([], [], []) of
         (secretNames, dnsNames, namespaces) \<Rightarrow>
           certController (fst (snd (initCertController w s args))) =
             fst (controller_backend w defaultCertGracePeriodRatio defaultMinCertGracePeriod
                    defaultCACertPath secretNames dnsNames namespaces) \<and>
           (case snd (controller_backend w defaultCertGracePeriodRatio
                        defaultMinCertGracePeriod defaultCACertPath
                        secretNames dnsNames namespaces) of
              None \<Rightarrow>
                fst (initCertController w s args) = None \<and>
                filter is_registration_call
                  (new_calls w (snd (snd (initCertController w s args)))) =
                  [AddStartFunc RunCertControllerInBackground] \<and>
                startFuncs (fst (snd (initCertController w s args))) =
                  startFuncs s @ [RunCertControllerInBackground]
            | Some e \<Rightarrow>
                fst (initCertController w s args) =
                  Some (ConstructionError
                    (''failed to create certificate controller: '' @ e)) \<and>
                filter is_registration_call
                  (new_calls w (snd (snd (initCertController w s args)))) = [] \<and>
                startFuncs (fst (snd (initCertController w s args))) = startFuncs s)))"
proof (cases "mesh_certificates s = []")
  case True
  then show ?thesis
    by (simp add: initCertController_empty [OF True] new_calls_def)
next
  case False
  obtain sn dn nss where
    ex: "extract_requests (mesh_certificates s) (Namespace args) ([], [], []) = (sn, dn, nss)"
    by (cases "extract_requests (mesh_certificates s) (Namespace args) ([], [], [])") auto
  obtain ctl err where
    cb: "controller_backend w defaultCertGracePeriodRatio defaultMinCertGracePeriod
           defaultCACertPath sn dn nss = (ctl, err)"
    by fastforce
  show ?thesis
    using False
    by (cases err)
      (simp_all add: initCertController_nonempty [OF False ex cb] ex cb new_calls_def)
qed

theorem initCertController_launch_witness:
  "mesh_certificates (fresh_server []) = [] \<and>
   filter is_construction_call
     (new_calls fresh_world
        (snd (snd (initCertController fresh_world (fresh_server []) \<lparr>Namespace = ''ns1''\<rparr>)))) = [] \<and>
   startFuncs (fst (snd (initCertController fresh_world (fresh_server [])
        \<lparr>Namespace = ''ns1''\<rparr>))) = [] \<and>
   mesh_certificates (fresh_server [\<lparr>SecretName = ''cert-a'', DnsNames = [''svc.a'']\<rparr>]) \<noteq> [] \<and>
   filter is_construction_call
     (new_calls fresh_world
        (snd (snd (initCertController fresh_world
           (fresh_server [\<lparr>SecretName = ''cert-a'', DnsNames = [''svc.a'']\<rparr>])
           \<lparr>Namespace = ''ns1''\<rparr>)))) =
     [NewWebhookController defaultCertGracePeriodRatio defaultMinCertGracePeriod
        defaultCACertPath [''cert-a''] [''svc.a''] [''ns1'']] \<and>
   startFuncs (fst (snd (initCertController fresh_world
        (fresh_server [\<lparr>SecretName = ''cert-a'', DnsNames = [''svc.a'']\<rparr>])
        \<lparr>Namespace = ''ns1''\<rparr>))) = [RunCertControllerInBackground] \<and>
   fst (initCertController refusing_world
        (fresh_server [\<lparr>SecretName = ''cert-a'', DnsNames = [''svc.a'']\<rparr>])
        \<lparr>Namespace = ''ns1''\<rparr>) =
     Some (ConstructionError ''failed to create certificate controller: bad ca'') \<and>
   filter is_registration_call
     (new_calls refusing_world
        (snd (snd (initCertController refusing_world
           (fresh_server [\<lparr>SecretName = ''cert-a'', DnsNames = [''svc.a'']\<rparr>])
           \<lparr>Namespace = ''ns1''\<rparr>)))) = [] \<and>
   startFuncs (fst (snd (initCertController refusing_world
        (fresh_server [\<lparr>SecretName = ''cert-a'', DnsNames = [''svc.a'']\<rparr>])
        \<lparr>Namespace = ''ns1''\<rparr>))) = []"
proof -
  have e: "mesh_certificates (fresh_server []) = []"
    by (simp add: fresh_server_def)
  have n: "mesh_certificates (fresh_server [\<lparr>SecretName = ''cert-a'', DnsNames = [''svc.a'']\<rparr>]) \<noteq> []"
    by (simp add: fresh_server_def)
  have ok: "fst (initCertController fresh_world
        (fresh_server [\<lparr>SecretName = ''cert-a'', DnsNames = [''svc.a'']\<rparr>])
        \<lparr>Namespace = ''ns1''\<rparr>) = None"
    by (simp add: initCertController_def chiron_NewWebhookController_def fresh_world_def
        fresh_server_def)
  have ex: "extract_requests [\<lparr>SecretName = ''cert-a'', DnsNames = [''svc.a'']\<rparr>] ''ns1''
              ([], [], []) = ([''cert-a''], [''svc.a''], [''ns1''])"
    by simp
  have refused: "snd (controller_backend refusing_world defaultCertGracePeriodRatio
                   defaultMinCertGracePeriod defaultCACertPath
                   [''cert-a''] [''svc.a''] [''ns1'']) = Some ''bad ca''"
    by (simp add: refusing_world_def)
  have accepted: "snd (controller_backend fresh_world defaultCertGracePeriodRatio
                   defaultMinCertGracePeriod defaultCACertPath
                   [''cert-a''] [''svc.a''] [''ns1'']) = None"
    by (simp add: fresh_world_def)
  show ?thesis
    using e n ok ex refused accepted
      initCertController_launch [of "fresh_server []" fresh_world "\<lparr>Namespace = ''ns1''\<rparr>"]
      initCertController_launch
        [of "fresh_server [\<lparr>SecretName = ''cert-a'', DnsNames = [''svc.a'']\<rparr>]"
            fresh_world "\<lparr>Namespace = ''ns1''\<rparr>"]
      initCertController_launch
        [of "fresh_server [\<lparr>SecretName = ''cert-a'', DnsNames = [''svc.a'']\<rparr>]"
            refusing_world "\<lparr>Namespace = ''ns1''\<rparr>"]
    by (simp add: fresh_server_def)
qed

text \<open>
  Claim C8. Whenever the method calls the constructor, whatever the certificate list,
  the namespace and the world, the grace period ratio it passes is 0.5, the minimum
  grace period is ten minutes (600000000000 nanoseconds, which fits the signed 64 bits
  of a duration) and the CA certificate path is the fixed path of the service account.
\<close>

theorem initCertController_fixed_policy:
  assumes "NewWebhookController r m p sn dn nss \<in>
             set (new_calls w (snd (snd (initCertController w s args))))"
  shows "r = 0.5 \<and> m = 600000000000 \<and> sint m = 10 * (60 * 1000000000) \<and>
         p = ''/var/run/secrets/kubernetes.io/serviceaccount/ca.crt''"
proof (cases "mesh_certificates s = []")
  case True
  from assms show ?thesis
    by (simp add: initCertController_empty [OF True] new_calls_def)
next
  case False
  obtain sn' dn' nss' where
    ex: "extract_requests (mesh_certificates s) (Namespace args) ([], [], []) = (sn', dn', nss')"
    by (cases "extract_requests (mesh_certificates s) (Namespace args) ([], [], [])") auto
  obtain ctl err where
    cb: "controller_backend w defaultCertGracePeriodRatio defaultMinCertGracePeriod
           defaultCACertPath sn' dn' nss' = (ctl, err)"
    by fastforce
  from assms have
    "r = defaultCertGracePeriodRatio \<and> m = defaultMinCertGracePeriod \<and> p = defaultCACertPath"
    by (cases err) (simp_all add: initCertController_nonempty [OF False ex cb] new_calls_def)
  then show ?thesis
    by (simp add: defaultCertGracePeriodRatio_def defaultMinCertGracePeriod_def
        time_Minute_def defaultCACertPath_def)
qed

theorem initCertController_fixed_policy_witness:
  "NewWebhookController 0.5 600000000000
      ''/var/run/secrets/kubernetes.io/serviceaccount/ca.crt''
      [''cert-a''] [''svc.a''] [''ns1''] \<in>
     set (new_calls fresh_world
        (snd (snd (initCertController fresh_world
           (fresh_server [\<lparr>SecretName = ''cert-a'', DnsNames = [''svc.a'']\<rparr>])
           \<lparr>Namespace = ''ns1''\<rparr>)))) \<and>
   sint (600000000000 :: duration) = 600000000000"
proof -
  have h: "NewWebhookController 0.5 600000000000
      ''/var/run/secrets/kubernetes.io/serviceaccount/ca.crt''
      [''cert-a''] [''svc.a''] [''ns1''] \<in>
     set (new_calls fresh_world
        (snd (snd (initCertController fresh_world
           (fresh_server [\<lparr>SecretName = ''cert-a'', DnsNames = [''svc.a'']\<rparr>])
           \<lparr>Namespace = ''ns1''\<rparr>))))"
    by (simp add: initCertController_def chiron_NewWebhookController_def addStartFunc_def
        record_call_def new_calls_def fresh_world_def fresh_server_def
        defaultCertGracePeriodRatio_def defaultMinCertGracePeriod_def time_Minute_def
        defaultCACertPath_def)
  show ?thesis
    using h initCertController_fixed_policy [OF h] by simp
qed

section \<open>The key file that is already there\<close>

text \<open>
  Claim C4. If something exists at the path of the key file when the method starts,
  then for every host name the method returns nil, and the only call it makes is the
  stat of that path: no signing request, no directory creation, no file write, and the
  file system is as it was.
\<close>

theorem initDNSCerts_skips_when_key_exists:
  assumes "files w dnsKeyFile \<noteq> None"
  shows "fst (initDNSCerts w hostname) = None \<and>
         new_calls w (snd (initDNSCerts w hostname)) = [Stat dnsKeyFile] \<and>
         filter is_signing_call (new_calls w (snd (initDNSCerts w hostname))) = [] \<and>
         filter is_write_call (new_calls w (snd (initDNSCerts w hostname))) = [] \<and>
         files (snd (initDNSCerts w hostname)) = files w"
  by (simp add: initDNSCerts_key_present [OF assms] new_calls_def)

theorem initDNSCerts_skips_when_key_exists_witness:
  "files mounted_world dnsKeyFile \<noteq> None \<and>
   fst (initDNSCerts mounted_world ''istiod.istio-system.svc'') = None \<and>
   new_calls mounted_world (snd (initDNSCerts mounted_world ''istiod.istio-system.svc'')) =
     [Stat dnsKeyFile]"
proof -
  have h: "files mounted_world dnsKeyFile \<noteq> None"
    by (simp add: mounted_world_def)
  show ?thesis
    using h initDNSCerts_skips_when_key_exists [OF h, of "''istiod.istio-system.svc''"]
    by simp
qed

text \<open>
  Claim C9. The test for the key file comes before the host name is split: when
  something exists at the path of the key file, a host name with fewer than two
  segments gets nil as well, after the stat and nothing else, and no invalid host name
  error.
\<close>

theorem initDNSCerts_skip_precedes_validation:
  assumes "files w dnsKeyFile \<noteq> None"
    and "length (strings_Split hostname CHR ''.'') < 2"
  shows "initDNSCerts w hostname = (None, record_call w (Stat dnsKeyFile)) \<and>
         (\<forall>msg. fst (initDNSCerts w hostname) \<noteq> Some (InvalidHostnameError msg))"
  by (simp add: initDNSCerts_key_present [OF assms(1)] record_call_def)

theorem initDNSCerts_skip_precedes_validation_witness:
  "files mounted_world dnsKeyFile \<noteq> None \<and>
   length (strings_Split ''localhost'' CHR ''.'') < 2 \<and>
   initDNSCerts mounted_world ''localhost'' =
     (None, record_call mounted_world (Stat dnsKeyFile))"
proof -
  have h: "files mounted_world dnsKeyFile \<noteq> None"
    by (simp add: mounted_world_def)
  have v: "length (strings_Split ''localhost'' CHR ''.'') < 2"
    by (simp add: strings_Split_def)
  show ?thesis
    using h v initDNSCerts_skip_precedes_validation [OF h v]
    by simp
qed

section \<open>Host names with fewer than two segments\<close>

text \<open>
  Claim C3, as the source has it. The claim says that every host name with fewer than
  two segments makes the method fail. The source looks at the key file first (line
  106), and returns nil when it is there, whatever the host name: with a key file
  mounted, the host name \<open>istiod\<close> of one segment gets nil.
\<close>

theorem initDNSCerts_invalid_hostname_counterexample:
  "length (strings_Split ''istiod'' CHR ''.'') < 2 \<and>
   fst (initDNSCerts mounted_world ''istiod'') = None"
  by (simp add: strings_Split_def initDNSCerts_def os_Stat_def mounted_world_def)

text \<open>
  Claim C3, amended. When nothing exists at the path of the key file, every host name
  with fewer than two segments makes the method fail with the invalid host name error,
  and the only call it has made is the stat of the key file: no signing request, no
  directory creation, no file write, and the file system is as it was.
\<close>

theorem initDNSCerts_invalid_hostname:
  assumes "files w dnsKeyFile = None"
    and "length (strings_Split hostname CHR ''.'') < 2"
  shows "fst (initDNSCerts w hostname) =
           Some (InvalidHostnameError
             (''invalid hostname '' @ hostname @
              '', should contain at least service name and namespace'')) \<and>
         new_calls w (snd (initDNSCerts w hostname)) = [Stat dnsKeyFile] \<and>
         filter is_signing_call (new_calls w (snd (initDNSCerts w hostname))) = [] \<and>
         filter is_write_call (new_calls w (snd (initDNSCerts w hostname))) = [] \<and>
         files (snd (initDNSCerts w hostname)) = files w"
  by (simp add: initDNSCerts_invalid [OF assms] new_calls_def)

theorem initDNSCerts_invalid_hostname_witness:
  "files fresh_world dnsKeyFile = None \<and>
   length (strings_Split ''localhost'' CHR ''.'') < 2 \<and>
   fst (initDNSCerts fresh_world ''localhost'') =
     Some (InvalidHostnameError
       ''invalid hostname localhost, should contain at least service name and namespace'') \<and>
   new_calls fresh_world (snd (initDNSCerts fresh_world ''localhost'')) = [Stat dnsKeyFile]"
proof -
  have h: "files fresh_world dnsKeyFile = None"
    by (simp add: fresh_world_def)
  have v: "length (strings_Split ''localhost'' CHR ''.'') < 2"
    by (simp add: strings_Split_def)
  show ?thesis
    using h v initDNSCerts_invalid_hostname [OF h v]
    by simp
qed

section \<open>The names and the signing request\<close>

text \<open>
  Claim C2. For every host name of at least two segments, the set of names the method
  computes is the host name alone, except for the two service names of the control
  plane, old and new, each of which gets the other beside it. When the key file is
  not there, these names are the ones the method logs and sends to be signed.
\<close>

theorem initDNSCerts_name_set:
  assumes "2 \<le> length (strings_Split hostname CHR ''.'')"
  shows "set (initDNSCerts_names hostname) =
           (if hostname = ''istio-pilot.istio-system.svc''
            then {''istio-pilot.istio-system.svc'', ''istiod.istio-system.svc''}
            else if hostname = ''istiod.istio-system.svc''
            then {''istiod.istio-system.svc'', ''istio-pilot.istio-system.svc''}
            else {hostname}) \<and>
         (files w dnsKeyFile = None \<longrightarrow>
            names_logged hostname \<in> set (new_calls w (snd (initDNSCerts w hostname))))"
proof -
  have "files w dnsKeyFile = None \<Longrightarrow>
          names_logged hostname \<in> set (new_calls w (snd (initDNSCerts w hostname)))"
    using initDNSCerts_request_first [OF _ assms, of w] by auto
  then show ?thesis
    by (simp add: initDNSCerts_names_def Let_def)
qed

theorem initDNSCerts_name_set_witness:
  "2 \<le> length (strings_Split ''istio-pilot.istio-system.svc'' CHR ''.'') \<and>
   files fresh_world dnsKeyFile = None \<and>
   set (initDNSCerts_names ''istio-pilot.istio-system.svc'') =
     {''istio-pilot.istio-system.svc'', ''istiod.istio-system.svc''} \<and>
   names_logged ''istio-pilot.istio-system.svc'' \<in>
     set (new_calls fresh_world (snd (initDNSCerts fresh_world ''istio-pilot.istio-system.svc'')))"
proof -
  have v: "2 \<le> length (strings_Split ''istio-pilot.istio-system.svc'' CHR ''.'')"
    by (simp add: strings_Split_def)
  have h: "files fresh_world dnsKeyFile = None"
    by (simp add: fresh_world_def)
  show ?thesis
    using v h initDNSCerts_name_set [OF v, of fresh_world]
    by simp
qed

text \<open>
  Claim C10. For every host name of at least two segments, when the key file is not
  there, the method makes one signing request: its CSR name is the first segment
  followed by \<open>.csr.secret\<close>, its namespace is the second segment, whatever segments
  follow, its CA path is the fixed one, and its DNS names are the computed names joined
  with commas into one string, which begins with the host name because the host name is
  the first of the names.
\<close>

theorem initDNSCerts_signing_request:
  assumes "files w dnsKeyFile = None"
    and "strings_Split hostname CHR ''.'' = p0 # p1 # rest"
  shows "filter is_signing_call (new_calls w (snd (initDNSCerts w hostname))) =
           [GenKeyCertK8sCA (strings_Join (initDNSCerts_names hostname) '','')
              (p0 @ ''.csr.secret'') p1 defaultCACertPath] \<and>
         initDNSCerts_names hostname = hostname # tl (initDNSCerts_names hostname) \<and>
         take (length hostname) (strings_Join (initDNSCerts_names hostname) '','') = hostname"
proof -
  have "2 \<le> length (strings_Split hostname CHR ''.'')"
    using assms(2) by simp
  from initDNSCerts_request_first [OF assms(1) this]
  have "filter is_signing_call (new_calls w (snd (initDNSCerts w hostname))) =
           [GenKeyCertK8sCA (strings_Join (initDNSCerts_names hostname) '','')
              (p0 @ ''.csr.secret'') p1 defaultCACertPath]"
    by (auto simp add: assms(2))
  moreover have "initDNSCerts_names hostname = hostname # tl (initDNSCerts_names hostname)"
    by (simp add: initDNSCerts_names_def Let_def)
  moreover have
    "take (length hostname) (strings_Join (initDNSCerts_names hostname) '','') = hostname"
    by (simp add: initDNSCerts_names_def Let_def)
  ultimately show ?thesis by simp
qed

theorem initDNSCerts_signing_request_witness:
  "files fresh_world dnsKeyFile = None \<and>
   strings_Split ''istiod.istio-system.svc'' CHR ''.'' = [''istiod'', ''istio-system'', ''svc''] \<and>
   filter is_signing_call
     (new_calls fresh_world (snd (initDNSCerts fresh_world ''istiod.istio-system.svc''))) =
     [GenKeyCertK8sCA ''istiod.istio-system.svc,istio-pilot.istio-system.svc''
        ''istiod.csr.secret'' ''istio-system''
        ''/var/run/secrets/kubernetes.io/serviceaccount/ca.crt'']"
proof -
  have h: "files fresh_world dnsKeyFile = None"
    by (simp add: fresh_world_def)
  have v: "strings_Split ''istiod.istio-system.svc'' CHR ''.'' =
             ''istiod'' # ''istio-system'' # [''svc'']"
    by (simp add: strings_Split_def)
  show ?thesis
    using h v initDNSCerts_signing_request [OF h v]
    by (simp add: initDNSCerts_names_def defaultCACertPath_def)
qed

section \<open>Saving the key and the certificate chain\<close>

text \<open>
  Claim C6. Take a run that reaches the file system: no key file, a host name of at
  least two segments, a signed certificate, and a directory that can be made. If the
  key file can be written and the write of the certificate chain file fails with an
  error, then the method returns that error, the key file written just before is still
  there with the key in it, and the calls are, in this order, the stat, the log line,
  the signing request, the directory creation, the write of the key file and the write
  of the chain file, with nothing after it to take the key file away. What the operating
  system answers for a path depends on that path alone, so its three answers are read
  off the world the method starts in.
\<close>

theorem initDNSCerts_chain_write_fails:
  assumes key: "files w dnsKeyFile = None"
    and valid: "2 \<le> length (strings_Split hostname CHR ''.'')"
    and sign: "csr_answer w hostname = Inr (certChain, keyPEM, caCert)"
    and mk: "fst (os_MkdirAll w dnsCertDir perm_0600) = None"
    and kw: "fst (ioutil_WriteFile w dnsKeyFile keyPEM perm_0600) = None"
    and cw: "fst (ioutil_WriteFile w dnsCertFile certChain perm_0600) = Some e"
  shows "fst (initDNSCerts w hostname) = Some (PersistenceError e) \<and>
         files (snd (initDNSCerts w hostname)) dnsKeyFile = Some (File keyPEM perm_0600) \<and>
         new_calls w (snd (initDNSCerts w hostname)) =
           [Stat dnsKeyFile, names_logged hostname, csr_call hostname,
            MkdirAll dnsCertDir perm_0600,
            WriteFile dnsKeyFile keyPEM perm_0600,
            WriteFile dnsCertFile certChain perm_0600]"
proof -
  define w2 where
    "w2 = w\<lparr>calls := calls w @ [Stat dnsKeyFile, names_logged hostname, csr_call hostname]\<rparr>"
  define w3 where
    "w3 = w2\<lparr>files := (if files w2 dnsCertDir = None
                         then (files w2)(dnsCertDir \<mapsto> Dir perm_0600) else files w2),
              calls := calls w2 @ [MkdirAll dnsCertDir perm_0600]\<rparr>"
  define w4 where
    "w4 = w3\<lparr>files := (files w3)(dnsKeyFile \<mapsto>
                File keyPEM (case files w3 dnsKeyFile of Some (File old m) \<Rightarrow> m | _ \<Rightarrow> perm_0600)),
              calls := calls w3 @ [WriteFile dnsKeyFile keyPEM perm_0600]\<rparr>"
  have "fst (os_MkdirAll w2 dnsCertDir perm_0600) = None"
    using mk os_MkdirAll_fst_cong [of w2 dnsCertDir w perm_0600] by (simp add: w2_def)
  then have s3: "os_MkdirAll w2 dnsCertDir perm_0600 = (None, w3)"
    unfolding w3_def by (rule os_MkdirAll_ok)
  have k3: "files w3 dnsKeyFile = None"
    using key paths_distinct by (simp add: w3_def w2_def)
  have "fst (ioutil_WriteFile w3 dnsKeyFile keyPEM perm_0600) = None"
    using kw k3 key ioutil_WriteFile_fst_cong [of w3 dnsKeyFile w keyPEM perm_0600]
    by (simp add: w3_def w2_def)
  then have s4: "ioutil_WriteFile w3 dnsKeyFile keyPEM perm_0600 = (None, w4)"
    unfolding w4_def by (rule ioutil_WriteFile_ok)
  have k4: "files w4 dnsKeyFile = Some (File keyPEM perm_0600)"
    using k3 by (simp add: w4_def)
  have c4: "files w4 dnsCertFile = files w dnsCertFile"
    using paths_distinct by (simp add: w4_def w3_def w2_def)
  have "fst (ioutil_WriteFile w4 dnsCertFile certChain perm_0600) = Some e"
    using cw c4 ioutil_WriteFile_fst_cong [of w4 dnsCertFile w certChain perm_0600]
    by (simp add: w4_def w3_def w2_def)
  then obtain w5 where s5: "ioutil_WriteFile w4 dnsCertFile certChain perm_0600 = (Some e, w5)"
    and c5: "calls w5 = calls w4 @ [WriteFile dnsCertFile certChain perm_0600]"
    and f5: "\<forall>q. q \<noteq> dnsCertFile \<longrightarrow> files w5 q = files w4 q"
    using ioutil_WriteFile_fail by blast
  have run: "initDNSCerts w hostname = (Some (PersistenceError e), w5)"
    using initDNSCerts_signed [OF key valid sign w2_def] s3 s4 s5 by simp
  have "files w5 dnsKeyFile = Some (File keyPEM perm_0600)"
    using f5 k4 paths_distinct by simp
  moreover have "new_calls w w5 =
      [Stat dnsKeyFile, names_logged hostname, csr_call hostname,
       MkdirAll dnsCertDir perm_0600,
       WriteFile dnsKeyFile keyPEM perm_0600,
       WriteFile dnsCertFile certChain perm_0600]"
    by (simp add: new_calls_def c5 w4_def w3_def w2_def)
  ultimately show ?thesis by (simp add: run)
qed

theorem initDNSCerts_chain_write_fails_witness:
  "fst (initDNSCerts chain_refused_world ''istiod.istio-system.svc'') =
     Some (PersistenceError ''permission denied'') \<and>
   files (snd (initDNSCerts chain_refused_world ''istiod.istio-system.svc'')) dnsKeyFile =
     Some (File [75] perm_0600) \<and>
   files (snd (initDNSCerts chain_refused_world ''istiod.istio-system.svc'')) dnsCertFile = None"
proof -
  have key: "files chain_refused_world dnsKeyFile = None"
    by (simp add: chain_refused_world_def fresh_world_def)
  have valid: "2 \<le> length (strings_Split ''istiod.istio-system.svc'' CHR ''.'')"
    by (simp add: strings_Split_def)
  have sign: "csr_answer chain_refused_world ''istiod.istio-system.svc'' = Inr ([67], [75], [65])"
    by (simp add: chain_refused_world_def fresh_world_def)
  have mk: "fst (os_MkdirAll chain_refused_world dnsCertDir perm_0600) = None"
    by (simp add: os_MkdirAll_def chain_refused_world_def fresh_world_def)
  have kw: "fst (ioutil_WriteFile chain_refused_world dnsKeyFile [75] perm_0600) = None"
    using paths_distinct
    by (simp add: ioutil_WriteFile_def chain_refused_world_def fresh_world_def)
  have cw: "fst (ioutil_WriteFile chain_refused_world dnsCertFile [67] perm_0600) =
              Some ''permission denied''"
    by (simp add: ioutil_WriteFile_def chain_refused_world_def fresh_world_def)
  have chain: "files (snd (initDNSCerts chain_refused_world ''istiod.istio-system.svc''))
                 dnsCertFile = None"
    using paths_distinct valid
    by (simp add: initDNSCerts_def os_Stat_def os_MkdirAll_def ioutil_WriteFile_def
        chiron_GenKeyCertK8sCA_def log_Infoa_def record_call_def chain_refused_world_def
        fresh_world_def Let_def)
  show ?thesis
    using chain initDNSCerts_chain_write_fails [OF key valid sign mk kw cw]
    by simp
qed

text \<open>
  Claim C7. When the key file is not there and the method returns nil, the CA has
  answered with a certificate chain and a key, and the method has made exactly three
  calls that write, in this order and each with mode 0600: the creation of the
  certificate directory, the write of the key file with that key, and the write of the
  chain file with that certificate chain. Afterwards the key file holds the key
  with mode 0600, and the chain file and the directory, where they were absent before,
  are there with mode 0600 too. Mode 0600 is bit 8 (read for the owner) and bit 7
  (write for the owner), and no other bit.
\<close>

theorem initDNSCerts_persists_with_0600:
  assumes key: "files w dnsKeyFile = None"
    and ok: "fst (initDNSCerts w hostname) = None"
  shows "\<exists>certChain keyPEM caCert.
           csr_answer w hostname = Inr (certChain, keyPEM, caCert) \<and>
           filter is_write_call (new_calls w (snd (initDNSCerts w hostname))) =
             [MkdirAll dnsCertDir perm_0600, WriteFile dnsKeyFile keyPEM perm_0600,
              WriteFile dnsCertFile certChain perm_0600] \<and>
           files (snd (initDNSCerts w hostname)) dnsKeyFile = Some (File keyPEM perm_0600) \<and>
           (files w dnsCertFile = None \<longrightarrow>
              files (snd (initDNSCerts w hostname)) dnsCertFile =
                Some (File certChain perm_0600)) \<and>
           (files w dnsCertDir = None \<longrightarrow>
              files (snd (initDNSCerts w hostname)) dnsCertDir = Some (Dir perm_0600)) \<and>
           perm_0600 = 2 ^ 8 + 2 ^ 7"
proof -
  have valid: "2 \<le> length (strings_Split hostname CHR ''.'')"
  proof (rule ccontr)
    assume "\<not> 2 \<le> length (strings_Split hostname CHR ''.'')"
    then have "length (strings_Split hostname CHR ''.'') < 2" by simp
    from initDNSCerts_invalid [OF key this] ok show False by simp
  qed
  obtain certChain keyPEM caCert where
    sign: "csr_answer w hostname = Inr (certChain, keyPEM, caCert)"
  proof (cases "csr_answer w hostname")
    case (Inl e)
    from initDNSCerts_signing_fails [OF key valid Inl] ok show ?thesis by simp
  next
    case (Inr r)
    with that show ?thesis by (cases r) auto
  qed
  define w2 where
    "w2 = w\<lparr>calls := calls w @ [Stat dnsKeyFile, names_logged hostname, csr_call hostname]\<rparr>"
  define w3 where
    "w3 = w2\<lparr>files := (if files w2 dnsCertDir = None
                         then (files w2)(dnsCertDir \<mapsto> Dir perm_0600) else files w2),
              calls := calls w2 @ [MkdirAll dnsCertDir perm_0600]\<rparr>"
  define w4 where
    "w4 = w3\<lparr>files := (files w3)(dnsKeyFile \<mapsto>
                File keyPEM (case files w3 dnsKeyFile of Some (File old m) \<Rightarrow> m | _ \<Rightarrow> perm_0600)),
              calls := calls w3 @ [WriteFile dnsKeyFile keyPEM perm_0600]\<rparr>"
  define w5 where
    "w5 = w4\<lparr>files := (files w4)(dnsCertFile \<mapsto>
                File certChain (case files w4 dnsCertFile of Some (File old m) \<Rightarrow> m | _ \<Rightarrow> perm_0600)),
              calls := calls w4 @ [WriteFile dnsCertFile certChain perm_0600]\<rparr>"
  define w6 where
    "w6 = log_Infoa w5 [LStr ''Certificates created in '', LStr dnsCertDir]"
  note run = initDNSCerts_signed [OF key valid sign w2_def]
  have "fst (os_MkdirAll w2 dnsCertDir perm_0600) = None"
    using ok run by (auto split: prod.splits option.splits)
  then have s3: "os_MkdirAll w2 dnsCertDir perm_0600 = (None, w3)"
    unfolding w3_def by (rule os_MkdirAll_ok)
  have "fst (ioutil_WriteFile w3 dnsKeyFile keyPEM perm_0600) = None"
    using ok run s3 by (auto split: prod.splits option.splits)
  then have s4: "ioutil_WriteFile w3 dnsKeyFile keyPEM perm_0600 = (None, w4)"
    unfolding w4_def by (rule ioutil_WriteFile_ok)
  have "fst (ioutil_WriteFile w4 dnsCertFile certChain perm_0600) = None"
    using ok run s3 s4 by (auto split: prod.splits option.splits)
  then have s5: "ioutil_WriteFile w4 dnsCertFile certChain perm_0600 = (None, w5)"
    unfolding w5_def by (rule ioutil_WriteFile_ok)
  have res: "initDNSCerts w hostname = (None, w6)"
    using run s3 s4 s5 by (simp add: w6_def)
  have k3: "files w3 dnsKeyFile = None"
    using key paths_distinct by (simp add: w3_def w2_def)
  have "filter is_write_call (new_calls w w6) =
          [MkdirAll dnsCertDir perm_0600, WriteFile dnsKeyFile keyPEM perm_0600,
           WriteFile dnsCertFile certChain perm_0600]"
    by (simp add: new_calls_def log_Infoa_def record_call_def w6_def w5_def w4_def w3_def w2_def)
  moreover have "files w6 dnsKeyFile = Some (File keyPEM perm_0600)"
    using k3 paths_distinct by (simp add: log_Infoa_def record_call_def w6_def w5_def w4_def)
  moreover have "files w dnsCertFile = None \<longrightarrow>
      files w6 dnsCertFile = Some (File certChain perm_0600)"
    using paths_distinct
    by (simp add: log_Infoa_def record_call_def w6_def w5_def w4_def w3_def w2_def)
  moreover have "files w dnsCertDir = None \<longrightarrow> files w6 dnsCertDir = Some (Dir perm_0600)"
    using paths_distinct
    by (simp add: log_Infoa_def record_call_def w6_def w5_def w4_def w3_def w2_def)
  moreover have "perm_0600 = 2 ^ 8 + 2 ^ 7"
    by (simp add: perm_0600_def)
  ultimately show ?thesis
    unfolding res snd_conv
    using sign
    by (intro exI [of _ certChain] exI [of _ keyPEM] exI [of _ caCert]) simp
qed

theorem initDNSCerts_persists_with_0600_witness:
  "files fresh_world dnsKeyFile = None \<and>
   fst (initDNSCerts fresh_world ''istiod.istio-system.svc'') = None \<and>
   filter is_write_call
     (new_calls fresh_world (snd (initDNSCerts fresh_world ''istiod.istio-system.svc''))) =
     [MkdirAll dnsCertDir perm_0600, WriteFile dnsKeyFile [75] perm_0600,
      WriteFile dnsCertFile [67] perm_0600] \<and>
   files (snd (initDNSCerts fresh_world ''istiod.istio-system.svc'')) dnsKeyFile =
     Some (File [75] perm_0600) \<and>
   files (snd (initDNSCerts fresh_world ''istiod.istio-system.svc'')) dnsCertFile =
     Some (File [67] perm_0600) \<and>
   files (snd (initDNSCerts fresh_world ''istiod.istio-system.svc'')) dnsCertDir =
     Some (Dir perm_0600)"
proof -
  have key: "files fresh_world dnsKeyFile = None"
    by (simp add: fresh_world_def)
  have valid: "2 \<le> length (strings_Split ''istiod.istio-system.svc'' CHR ''.'')"
    by (simp add: strings_Split_def)
  have ok: "fst (initDNSCerts fresh_world ''istiod.istio-system.svc'') = None"
    using paths_distinct valid
    by (simp add: initDNSCerts_def os_Stat_def os_MkdirAll_def ioutil_WriteFile_def
        chiron_GenKeyCertK8sCA_def log_Infoa_def record_call_def fresh_world_def Let_def)
  have dir: "files fresh_world dnsCertDir = None" and chain: "files fresh_world dnsCertFile = None"
    by (simp_all add: fresh_world_def)
  have sign: "csr_answer fresh_world ''istiod.istio-system.svc'' = Inr ([67], [75], [65])"
    by (simp add: fresh_world_def)
  from initDNSCerts_persists_with_0600 [OF key ok]
  show ?thesis
    using key ok dir chain sign by auto
qed

end
